theory Spec2Isabelle
  imports Main "HOL-Library.Sublist"
begin

section \<open>Values, dictionaries and errors\<close>

text \<open>
  Configuration fragments are the Python values a YAML document yields. A reference
  \<open>VObj\<close> stands for a mutable object that lives outside the value (the response object
  created by the transport call). Strings are ASCII texts.
\<close>

type_synonym ref = nat

datatype pyval =
    VNone
  | VBool bool
  | VInt int
  | VStr string
  | VList "pyval list"
  | VDict "(string \<times> pyval) list"
  | VObj ref

text \<open>
  A Python \<open>dict\<close> is an insertion-ordered association list. \<open>dict_get d k v\<close> is
  \<open>d.get(k, v)\<close>, \<open>dict_keys d\<close> is \<open>d.keys()\<close>, \<open>dict_set d k v\<close> is \<open>d[k] = v\<close>
  (an existing key keeps its position, a new key goes last) and \<open>dict_merge a b\<close> is
  the display \<open>{**a, **b}\<close>, which inserts the items of \<open>a\<close> and then those of \<open>b\<close>.
\<close>

type_synonym dict = "(string \<times> pyval) list"

definition dict_get :: "dict \<Rightarrow> string \<Rightarrow> pyval \<Rightarrow> pyval" where
  "dict_get d k v = (case map_of d k of None \<Rightarrow> v | Some x \<Rightarrow> x)"

definition dict_keys :: "dict \<Rightarrow> string list" where
  "dict_keys d = map fst d"

fun dict_set :: "dict \<Rightarrow> string \<Rightarrow> pyval \<Rightarrow> dict" where
  "dict_set [] k v = [(k, v)]"
| "dict_set ((k', v') # d) k v = (if k' = k then (k, v) # d else (k', v') # dict_set d k v)"

definition dict_merge :: "dict \<Rightarrow> dict \<Rightarrow> dict" where
  "dict_merge a b = foldl (\<lambda>d (k, v). dict_set d k v) a b"

text \<open>
  The exceptions that can leave the request node. The first is raised by the node itself;
  the validation error comes from \<open>validate_keys\<close>; \<open>AttributeError\<close> and \<open>TypeError\<close>
  are what Python raises for \<open>.upper()\<close> on a non-string, for \<open>**\<close> on a non-mapping
  and for iterating a non-iterable; the rest are raised by the collaborators.
\<close>

datatype error =
    HTTPMethodNotAllowedError string "string list"
  | ValidationError "string list" string
  | AttributeError
  | TypeError
  | KeyError string
  | UndefinedVariableError string
  | TemplateResolutionError string
  | TransportError string

section \<open>The request node\<close>

text \<open>
  Modelled from the spec: the constants of \<open>scanapi.tree.tree_keys\<close>, which are not part
  of the source at hand; the spec lists the request node's keys as body, headers, method,
  name, params, path, tests and vars.
\<close>

definition BODY_KEY :: string where "BODY_KEY = ''body''"
definition HEADERS_KEY :: string where "HEADERS_KEY = ''headers''"
definition METHOD_KEY :: string where "METHOD_KEY = ''method''"
definition NAME_KEY :: string where "NAME_KEY = ''name''"
definition PARAMS_KEY :: string where "PARAMS_KEY = ''params''"
definition PATH_KEY :: string where "PATH_KEY = ''path''"
definition TESTS_KEY :: string where "TESTS_KEY = ''tests''"
definition VARS_KEY :: string where "VARS_KEY = ''vars''"

definition SCOPE :: string where
  "SCOPE = ''request''"

definition ALLOWED_KEYS :: "string list" where
  "ALLOWED_KEYS =
     [BODY_KEY, HEADERS_KEY, METHOD_KEY, NAME_KEY, PARAMS_KEY, PATH_KEY, TESTS_KEY, VARS_KEY]"

definition ALLOWED_HTTP_METHODS :: "string list" where
  "ALLOWED_HTTP_METHODS = [''GET'', ''POST'', ''PUT'', ''PATCH'', ''DELETE'']"

definition REQUIRED_KEYS :: "string list" where
  "REQUIRED_KEYS = [NAME_KEY]"

text \<open>
  The parent endpoint, as the request node reads it: the values of its \<open>path\<close>,
  \<open>headers\<close> and \<open>params\<close> properties. Its namespace \<open>endpoint.vars\<close> is mutable and
  lives in the world the collaborators act on (below).
\<close>

record EndpointNode =
  endpoint_path :: string
  endpoint_headers :: dict
  endpoint_params :: dict

record RequestNode =
  spec :: dict
  endpoint :: EndpointNode

text \<open>\<open>str.upper()\<close> on ASCII text: the letters a to z move to A to Z.\<close>

definition upper_char :: "char \<Rightarrow> char" where
  "upper_char c =
     (let n = (of_char c :: nat) in if 97 \<le> n \<and> n \<le> 122 then char_of (n - 32) else c)"

definition upper :: "string \<Rightarrow> string" where
  "upper s = map upper_char s"

text \<open>
  The property \<open>http_method\<close>. The default \<open>"get"\<close> is taken when the key is absent;
  a configured value that is not a string has no \<open>upper\<close> method.
\<close>

definition http_method :: "RequestNode \<Rightarrow> error + string" where
  "http_method self =
     (case dict_get (spec self) METHOD_KEY (VStr ''get'') of
        VStr m \<Rightarrow>
          (let method = upper m in
           if method \<notin> set ALLOWED_HTTP_METHODS
           then Inl (HTTPMethodNotAllowedError method ALLOWED_HTTP_METHODS)
           else Inr method)
      | _ \<Rightarrow> Inl AttributeError)"

text \<open>The property \<open>name\<close> is \<open>self[NAME_KEY]\<close>, which raises for a missing key.\<close>

definition name :: "RequestNode \<Rightarrow> error + pyval" where
  "name self =
     (case map_of (spec self) NAME_KEY of None \<Rightarrow> Inl (KeyError NAME_KEY) | Some v \<Rightarrow> Inr v)"

section \<open>Collaborators, the world and the trace\<close>

text \<open>
  The request node works through collaborators that are not part of the source at hand:
  the endpoint's namespace \<open>endpoint.vars\<close> (\<open>evaluate\<close> and \<open>update\<close>), the transport
  \<open>requests.request\<close>, the test nodes and \<open>hide_sensitive_info\<close>. They are parameters of
  the model. Each acts on a world \<open>'w\<close> (the namespace, the response objects, the network)
  and either raises or returns; whatever it changed stays changed when it raises.
  The built-in \<open>str\<close> on a value that is not a string is a parameter as well.
\<close>

record http_request =
  req_method :: string
  req_url :: pyval
  req_headers :: pyval
  req_params :: pyval
  req_json :: pyval
  allow_redirects :: bool

text \<open>
  Modelled from the spec: the enumeration \<open>TestStatus\<close> and the shape of a test result,
  which \<open>scanapi.test_status\<close> and the test node define outside the source at hand.
\<close>

datatype TestStatus = PASSED | FAILED | ERROR

record test_result =
  test_name :: string
  status :: TestStatus
  failure :: "string option"

record 'w collab =
  vars_evaluate :: "pyval \<Rightarrow> 'w \<Rightarrow> (error + pyval) \<times> 'w"
  vars_update :: "pyval \<Rightarrow> dict option \<Rightarrow> bool \<Rightarrow> 'w \<Rightarrow> (error + unit) \<times> 'w"
  requests_request :: "http_request \<Rightarrow> 'w \<Rightarrow> (error + ref) \<times> 'w"
  test_run :: "pyval \<Rightarrow> 'w \<Rightarrow> (error + test_result) \<times> 'w"
  hide_sensitive_info :: "ref \<Rightarrow> 'w \<Rightarrow> (error + unit) \<times> 'w"
  builtin_str :: "pyval \<Rightarrow> string"

text \<open>
  Every call of a collaborator is recorded, with its arguments, in a trace that grows at
  the end. \<open>Update v e p\<close> is \<open>endpoint.vars.update(v, extras=e, preevaluate=p)\<close>, with
  \<open>e = None\<close> when the call passes no extras.
\<close>

datatype event =
    is_Evaluate: Evaluate pyval
  | is_Update: Update pyval "dict option" bool
  | is_Request: Request http_request
  | is_TestRun: TestRun pyval
  | is_Hide: Hide ref

type_synonym 'w state = "'w \<times> event list"

type_synonym ('w, 'a) action = "'w state \<Rightarrow> (error + 'a) \<times> 'w state"

definition ret :: "'a \<Rightarrow> ('w, 'a) action" where
  "ret x = (\<lambda>s. (Inr x, s))"

definition raise :: "error \<Rightarrow> ('w, 'a) action" where
  "raise e = (\<lambda>s. (Inl e, s))"

definition lift :: "error + 'a \<Rightarrow> ('w, 'a) action" where
  "lift r = (\<lambda>s. (r, s))"

definition bnd :: "('w, 'a) action \<Rightarrow> ('a \<Rightarrow> ('w, 'b) action) \<Rightarrow> ('w, 'b) action" where
  "bnd m f = (\<lambda>s. case m s of (Inl e, s') \<Rightarrow> (Inl e, s') | (Inr x, s') \<Rightarrow> f x s')"

definition call :: "event \<Rightarrow> ('w \<Rightarrow> (error + 'a) \<times> 'w) \<Rightarrow> ('w, 'a) action" where
  "call ev f = (\<lambda>(w, tr). case f w of (r, w') \<Rightarrow> (r, (w', tr @ [ev])))"

definition evaluate :: "'w collab \<Rightarrow> pyval \<Rightarrow> ('w, pyval) action" where
  "evaluate C v = call (Evaluate v) (vars_evaluate C v)"

definition update :: "'w collab \<Rightarrow> pyval \<Rightarrow> dict option \<Rightarrow> bool \<Rightarrow> ('w, unit) action" where
  "update C v extras preevaluate =
     call (Update v extras preevaluate) (vars_update C v extras preevaluate)"

definition request :: "'w collab \<Rightarrow> http_request \<Rightarrow> ('w, ref) action" where
  "request C rq = call (Request rq) (requests_request C rq)"

definition testing_node_run :: "'w collab \<Rightarrow> pyval \<Rightarrow> ('w, test_result) action" where
  "testing_node_run C t = call (TestRun t) (test_run C t)"

definition hide :: "'w collab \<Rightarrow> ref \<Rightarrow> ('w, unit) action" where
  "hide C r = call (Hide r) (hide_sensitive_info C r)"

text \<open>\<open>str(v)\<close>: a string is itself, any other value goes through the built-in.\<close>

definition py_str :: "'w collab \<Rightarrow> pyval \<Rightarrow> string" where
  "py_str C v = (case v of VStr s \<Rightarrow> s | _ \<Rightarrow> builtin_str C v)"

text \<open>\<open>all(bs)\<close> over a list of booleans.\<close>

fun py_all :: "bool list \<Rightarrow> bool" where
  "py_all [] = True"
| "py_all (b # bs) = (if b then py_all bs else False)"

section \<open>Path joining and key validation\<close>

text \<open>
  Modelled from the spec: \<open>join_urls\<close> of \<open>scanapi.utils\<close>, which is not part of the
  source at hand. The spec's rule: the effective path is the base and the suffix
  concatenated with exactly one separating slash, regardless of existing slashes on
  either side (\<open>/api/\<close> and \<open>/users\<close> give \<open>/api/users\<close>, \<open>/api\<close> and \<open>users\<close> give
  \<open>/api/users\<close>).
\<close>

definition rstrip_slash :: "string \<Rightarrow> string" where
  "rstrip_slash s = rev (dropWhile (\<lambda>c. c = CHR ''/'') (rev s))"

definition lstrip_slash :: "string \<Rightarrow> string" where
  "lstrip_slash s = dropWhile (\<lambda>c. c = CHR ''/'') s"

definition join_urls :: "string \<Rightarrow> string \<Rightarrow> string" where
  "join_urls first_url second_url = rstrip_slash first_url @ ''/'' @ lstrip_slash second_url"

text \<open>
  Modelled from the spec: \<open>validate_keys\<close> of \<open>scanapi.utils\<close>, which is not part of the
  source at hand. The spec's rule: the key set must be a subset of the allowed keys and
  a superset of the required keys, and a violation is a validation error that names the
  offending keys and the scope.
\<close>

definition validate_keys :: "string list \<Rightarrow> string list \<Rightarrow> string list \<Rightarrow> string \<Rightarrow> error + unit" where
  "validate_keys keys available_keys required_keys scope =
     (let unknown = filter (\<lambda>k. k \<notin> set available_keys) keys;
          missing = filter (\<lambda>k. k \<notin> set keys) required_keys
      in if unknown \<noteq> [] then Inl (ValidationError unknown scope)
         else if missing \<noteq> [] then Inl (ValidationError missing scope)
         else Inr ())"

section \<open>Properties and execution of the request node\<close>

definition validate :: "RequestNode \<Rightarrow> error + unit" where
  "validate self = validate_keys (dict_keys (spec self)) ALLOWED_KEYS REQUIRED_KEYS SCOPE"

text \<open>The constructor stores its two arguments and validates; it returns the node.\<close>

definition RequestNode_init :: "dict \<Rightarrow> EndpointNode \<Rightarrow> error + RequestNode" where
  "RequestNode_init sp ep =
     (let self = \<lparr>spec = sp, endpoint = ep\<rparr> in
      case validate self of Inl e \<Rightarrow> Inl e | Inr _ \<Rightarrow> Inr self)"

definition full_url_path :: "'w collab \<Rightarrow> RequestNode \<Rightarrow> ('w, pyval) action" where
  "full_url_path C self =
     (let base_path = endpoint_path (endpoint self);
          path = py_str C (dict_get (spec self) PATH_KEY (VStr ''''));
          full_url = join_urls base_path path
      in evaluate C (VStr full_url))"

definition headers :: "'w collab \<Rightarrow> RequestNode \<Rightarrow> ('w, pyval) action" where
  "headers C self =
     (let endpoint_headers = endpoint_headers (endpoint self) in
      case dict_get (spec self) HEADERS_KEY (VDict []) of
        VDict headers \<Rightarrow> evaluate C (VDict (dict_merge endpoint_headers headers))
      | _ \<Rightarrow> raise TypeError)"

definition params :: "'w collab \<Rightarrow> RequestNode \<Rightarrow> ('w, pyval) action" where
  "params C self =
     (let endpoint_params = endpoint_params (endpoint self) in
      case dict_get (spec self) PARAMS_KEY (VDict []) of
        VDict params \<Rightarrow> evaluate C (VDict (dict_merge endpoint_params params))
      | _ \<Rightarrow> raise TypeError)"

definition body :: "'w collab \<Rightarrow> RequestNode \<Rightarrow> ('w, pyval) action" where
  "body C self = evaluate C (dict_get (spec self) BODY_KEY VNone)"

text \<open>
  The property \<open>tests\<close> iterates \<open>self.spec.get("tests", [])\<close>: the items of a list, the
  keys of a dict, the characters of a string; any other value is not iterable. Each item
  becomes a test node, which \<open>_run_tests\<close> constructs and runs in turn.
\<close>

definition tests :: "RequestNode \<Rightarrow> error + pyval list" where
  "tests self =
     (case dict_get (spec self) ''tests'' (VList []) of
        VList ts \<Rightarrow> Inr ts
      | VDict d \<Rightarrow> Inr (map (\<lambda>(k, v). VStr k) d)
      | VStr s \<Rightarrow> Inr (map (\<lambda>c. VStr [c]) s)
      | _ \<Rightarrow> Inl TypeError)"

fun run_each :: "'w collab \<Rightarrow> pyval list \<Rightarrow> ('w, test_result list) action" where
  "run_each C [] = ret []"
| "run_each C (t # ts) =
     bnd (testing_node_run C t) (\<lambda>r. bnd (run_each C ts) (\<lambda>rs. ret (r # rs)))"

definition run_tests :: "'w collab \<Rightarrow> RequestNode \<Rightarrow> ('w, test_result list) action" where
  "run_tests C self = bnd (lift (tests self)) (run_each C)"

record result_bundle =
  response :: ref
  tests_results :: "test_result list"
  no_failure :: bool

text \<open>
  \<open>run\<close>, statement by statement. The arguments of the transport call are evaluated from
  left to right: \<open>self.headers\<close>, \<open>self.params\<close>, \<open>self.body\<close>. Logging is left out.
\<close>

definition run :: "'w collab \<Rightarrow> RequestNode \<Rightarrow> ('w, result_bundle) action" where
  "run C self =
     bnd (lift (http_method self)) (\<lambda>method.
     bnd (full_url_path C self) (\<lambda>url.
     bnd (update C (dict_get (spec self) VARS_KEY (VDict [])) None False) (\<lambda>_.
     bnd (headers C self) (\<lambda>h.
     bnd (params C self) (\<lambda>p.
     bnd (body C self) (\<lambda>b.
     bnd (request C \<lparr>req_method = method, req_url = url, req_headers = h,
                     req_params = p, req_json = b, allow_redirects = False\<rparr>) (\<lambda>response.
     bnd (update C (dict_get (spec self) VARS_KEY (VDict []))
            (Some [(''response'', VObj response)]) True) (\<lambda>_.
     bnd (run_tests C self) (\<lambda>tests_results.
     bnd (hide C response) (\<lambda>_.
     ret \<lparr>response = response,
          tests_results = tests_results,
          no_failure = py_all (map (\<lambda>test_result. status test_result = PASSED) tests_results)\<rparr>
     ))))))))))"

text \<open>The arguments that \<open>run\<close> passes on, named for the statements below.\<close>

abbreviation configured_vars :: "RequestNode \<Rightarrow> pyval" where
  "configured_vars self \<equiv> dict_get (spec self) VARS_KEY (VDict [])"

abbreviation joined_url :: "'w collab \<Rightarrow> RequestNode \<Rightarrow> pyval" where
  "joined_url C self \<equiv>
     VStr (join_urls (endpoint_path (endpoint self))
            (py_str C (dict_get (spec self) PATH_KEY (VStr ''''))))"

abbreviation response_extras :: "ref \<Rightarrow> dict option" where
  "response_extras r \<equiv> Some [(''response'', VObj r)]"

section \<open>The order of the written contract\<close>

text \<open>
  The contract of \<open>run()\<close> in the spec lists its steps in this order: (1) resolve method,
  URL, headers, params and body, (2) pre-call namespace update, (3) transport call,
  (4) post-call namespace update, (5) tests, (6) redaction, (7) the result bundle.
  \<open>run_as_specified\<close> performs the steps in that order, for comparison with \<open>run\<close>.
\<close>

definition run_as_specified :: "'w collab \<Rightarrow> RequestNode \<Rightarrow> ('w, result_bundle) action" where
  "run_as_specified C self =
     bnd (lift (http_method self)) (\<lambda>method.
     bnd (full_url_path C self) (\<lambda>url.
     bnd (headers C self) (\<lambda>h.
     bnd (params C self) (\<lambda>p.
     bnd (body C self) (\<lambda>b.
     bnd (update C (configured_vars self) None False) (\<lambda>_.
     bnd (request C \<lparr>req_method = method, req_url = url, req_headers = h,
                     req_params = p, req_json = b, allow_redirects = False\<rparr>) (\<lambda>response.
     bnd (update C (configured_vars self) (response_extras response) True) (\<lambda>_.
     bnd (run_tests C self) (\<lambda>tests_results.
     bnd (hide C response) (\<lambda>_.
     ret \<lparr>response = response,
          tests_results = tests_results,
          no_failure = py_all (map (\<lambda>test_result. status test_result = PASSED) tests_results)\<rparr>
     ))))))))))"

section \<open>A reference set of collaborators\<close>

text \<open>
  A concrete world on which the node can be executed: the endpoint's namespace (its own
  layer and the layers of its ancestors) and the response objects created so far, a
  reference being an index into them.
\<close>

record response_obj =
  status_code :: int
  resp_headers :: dict
  resp_body :: pyval

record world =
  registry :: dict
  ancestors :: "dict list"
  objects :: "response_obj list"

text \<open>
  Modelled from the spec: the variable namespace and the template evaluator
  (\<open>SpecEvaluator\<close>, which is not part of the source at hand). Lookup walks the own layer
  and then the ancestors and fails with \<open>UndefinedVariableError\<close>. A placeholder is written
  \<open>${name}\<close> here (the spec leaves its syntax open) and names a variable; paths into
  structured values are left out. A string is scanned from left to right and every
  placeholder is replaced by \<open>str\<close> of its value; a string that is exactly one placeholder
  yields the typed value; mappings and sequences are evaluated element by element; other
  scalars pass through; an undefined name is a \<open>TemplateResolutionError\<close>.
\<close>

fun lookup_layers :: "dict list \<Rightarrow> string \<Rightarrow> pyval option" where
  "lookup_layers [] x = None"
| "lookup_layers (d # ds) x =
     (case map_of d x of Some v \<Rightarrow> Some v | None \<Rightarrow> lookup_layers ds x)"

definition lookup :: "world \<Rightarrow> string \<Rightarrow> error + pyval" where
  "lookup w x =
     (case lookup_layers (registry w # ancestors w) x of
        None \<Rightarrow> Inl (UndefinedVariableError x)
      | Some v \<Rightarrow> Inr v)"

definition resolve :: "world \<Rightarrow> string \<Rightarrow> error + pyval" where
  "resolve w x =
     (case lookup w x of Inl e \<Rightarrow> Inl (TemplateResolutionError x) | Inr v \<Rightarrow> Inr v)"

definition whole_placeholder :: "string \<Rightarrow> string option" where
  "whole_placeholder s =
     (if 3 \<le> length s \<and> take 2 s = ''${'' \<and> last s = CHR ''}''
         \<and> CHR ''}'' \<notin> set (butlast (drop 2 s))
      then Some (butlast (drop 2 s)) else None)"

text \<open>
  The scanner: outside a placeholder (\<open>None\<close>) text is copied until \<open>${\<close> opens a
  placeholder that is closed later; inside (\<open>Some x\<close>, with \<open>x\<close> the name read so
  far) the name runs to the closing brace.
\<close>

fun substitute :: "(pyval \<Rightarrow> string) \<Rightarrow> world \<Rightarrow> string option \<Rightarrow> string \<Rightarrow> error + string" where
  "substitute str w None [] = Inr []"
| "substitute str w None [c] = Inr [c]"
| "substitute str w None (c # d # cs) =
     (if c = CHR ''$'' \<and> d = CHR ''{'' \<and> CHR ''}'' \<in> set cs
      then substitute str w (Some []) cs
      else (case substitute str w None (d # cs) of Inl e \<Rightarrow> Inl e | Inr t \<Rightarrow> Inr (c # t)))"
| "substitute str w (Some x) [] = Inr (''${'' @ x)"
| "substitute str w (Some x) (c # cs) =
     (if c = CHR ''}''
      then (case resolve w x of
              Inl e \<Rightarrow> Inl e
            | Inr v \<Rightarrow>
                (case substitute str w None cs of
                   Inl e \<Rightarrow> Inl e
                 | Inr t \<Rightarrow> Inr ((case v of VStr s \<Rightarrow> s | _ \<Rightarrow> str v) @ t)))
      else substitute str w (Some (x @ [c])) cs)"

definition evaluate_str :: "(pyval \<Rightarrow> string) \<Rightarrow> world \<Rightarrow> string \<Rightarrow> error + pyval" where
  "evaluate_str str w s =
     (case whole_placeholder s of
        Some x \<Rightarrow> resolve w x
      | None \<Rightarrow> (case substitute str w None s of Inl e \<Rightarrow> Inl e | Inr t \<Rightarrow> Inr (VStr t)))"

fun evaluate_val :: "(pyval \<Rightarrow> string) \<Rightarrow> world \<Rightarrow> pyval \<Rightarrow> error + pyval"
  and evaluate_list :: "(pyval \<Rightarrow> string) \<Rightarrow> world \<Rightarrow> pyval list \<Rightarrow> error + pyval list"
  and evaluate_items :: "(pyval \<Rightarrow> string) \<Rightarrow> world \<Rightarrow> dict \<Rightarrow> error + dict" where
  "evaluate_val str w (VStr s) = evaluate_str str w s"
| "evaluate_val str w (VList vs) =
     (case evaluate_list str w vs of Inl e \<Rightarrow> Inl e | Inr vs' \<Rightarrow> Inr (VList vs'))"
| "evaluate_val str w (VDict d) =
     (case evaluate_items str w d of Inl e \<Rightarrow> Inl e | Inr d' \<Rightarrow> Inr (VDict d'))"
| "evaluate_val str w VNone = Inr VNone"
| "evaluate_val str w (VBool b) = Inr (VBool b)"
| "evaluate_val str w (VInt i) = Inr (VInt i)"
| "evaluate_val str w (VObj r) = Inr (VObj r)"
| "evaluate_list str w [] = Inr []"
| "evaluate_list str w (v # vs) =
     (case evaluate_val str w v of
        Inl e \<Rightarrow> Inl e
      | Inr v' \<Rightarrow>
          (case evaluate_list str w vs of Inl e \<Rightarrow> Inl e | Inr vs' \<Rightarrow> Inr (v' # vs')))"
| "evaluate_items str w [] = Inr []"
| "evaluate_items str w ((k, v) # d) =
     (case evaluate_val str w v of
        Inl e \<Rightarrow> Inl e
      | Inr v' \<Rightarrow>
          (case evaluate_items str w d of Inl e \<Rightarrow> Inl e | Inr d' \<Rightarrow> Inr ((k, v') # d')))"

text \<open>
  Modelled from the spec: \<open>update(bindings, extras, preevaluate)\<close> of the namespace. The
  extras are bound directly; with \<open>preevaluate\<close> every value of the bindings is evaluated
  against the namespace as it stands before the merge (extras included) and the results are
  stored, otherwise the raw values are stored. Only the own layer changes, an existing
  name is overwritten.
\<close>

definition namespace_update ::
  "(pyval \<Rightarrow> string) \<Rightarrow> pyval \<Rightarrow> dict option \<Rightarrow> bool \<Rightarrow> world \<Rightarrow> (error + unit) \<times> world" where
  "namespace_update str bindings extras preevaluate w =
     (case bindings of
        VDict d \<Rightarrow>
          (let w1 = w\<lparr>registry :=
                     dict_merge (registry w) (case extras of None \<Rightarrow> [] | Some x \<Rightarrow> x)\<rparr>
           in if preevaluate
              then (case evaluate_items str w1 d of
                      Inl e \<Rightarrow> (Inl e, w1)
                    | Inr d' \<Rightarrow> (Inr (), w1\<lparr>registry := dict_merge (registry w1) d'\<rparr>))
              else (Inr (), w1\<lparr>registry := dict_merge (registry w1) d\<rparr>))
      | _ \<Rightarrow> (Inl AttributeError, w))"

text \<open>
  A stand-in for the transport: a server that answers 200 and echoes the request's
  headers and body. The response becomes a new object, and its reference is returned.
\<close>

definition echo_transport :: "http_request \<Rightarrow> world \<Rightarrow> (error + ref) \<times> world" where
  "echo_transport rq w =
     (Inr (length (objects w)),
      w\<lparr>objects := objects w @
         [\<lparr>status_code = 200,
           resp_headers = (case req_headers rq of VDict d \<Rightarrow> d | _ \<Rightarrow> []),
           resp_body = req_json rq\<rparr>]\<rparr>)"

text \<open>
  Modelled from the spec: the test node's classification of an assertion (the test node
  is not part of the source at hand): \<open>PASSED\<close> when it holds, \<open>FAILED\<close> when it does
  not, \<open>ERROR\<close> when it cannot be evaluated. The assertion language is outside the model;
  the assertion here compares one header of the response bound in the namespace with an
  expected value.
\<close>

definition header_test :: "pyval \<Rightarrow> world \<Rightarrow> (error + test_result) \<times> world" where
  "header_test t w =
     (case t of
        VDict d \<Rightarrow>
          (case (map_of d ''name'', map_of d ''header'', map_of d ''equals'') of
             (Some (VStr n), Some (VStr h), Some v) \<Rightarrow>
               (case lookup w ''response'' of
                  Inr (VObj r) \<Rightarrow>
                    if r < length (objects w)
                    then (if map_of (resp_headers (objects w ! r)) h = Some v
                          then (Inr \<lparr>test_name = n, status = PASSED, failure = None\<rparr>, w)
                          else (Inr \<lparr>test_name = n, status = FAILED, failure = Some h\<rparr>, w))
                    else (Inr \<lparr>test_name = n, status = ERROR, failure = Some ''response''\<rparr>, w)
                | _ \<Rightarrow> (Inr \<lparr>test_name = n, status = ERROR, failure = Some ''response''\<rparr>, w))
           | _ \<Rightarrow> (Inr \<lparr>test_name = '''', status = ERROR, failure = Some ''spec''\<rparr>, w))
      | _ \<Rightarrow> (Inr \<lparr>test_name = '''', status = ERROR, failure = Some ''spec''\<rparr>, w))"

text \<open>
  Modelled from the spec: the redactor \<open>hide_sensitive_info\<close> (not part of the source at
  hand), for a fixed set of field names: every matching header and body field of the
  response object is replaced by a fixed mask token, in place.
\<close>

definition MASK :: string where
  "MASK = ''SENSITIVE_INFORMATION''"

definition mask_fields :: "string list \<Rightarrow> dict \<Rightarrow> dict" where
  "mask_fields hidden d = map (\<lambda>(k, v). if k \<in> set hidden then (k, VStr MASK) else (k, v)) d"

definition redact :: "string list \<Rightarrow> ref \<Rightarrow> world \<Rightarrow> (error + unit) \<times> world" where
  "redact hidden r w =
     (if r < length (objects w)
      then (Inr (),
            w\<lparr>objects := (objects w)[r :=
               (objects w ! r)\<lparr>resp_headers := mask_fields hidden (resp_headers (objects w ! r)),
                 resp_body := (case resp_body (objects w ! r) of
                                 VDict d \<Rightarrow> VDict (mask_fields hidden d) | v \<Rightarrow> v)\<rparr>]\<rparr>)
      else (Inl AttributeError, w))"

definition reference :: "string list \<Rightarrow> world collab" where
  "reference hidden =
     \<lparr>vars_evaluate = (\<lambda>v w. (evaluate_val (\<lambda>_. ''?'') w v, w)),
      vars_update = namespace_update (\<lambda>_. ''?''),
      requests_request = echo_transport,
      test_run = header_test,
      hide_sensitive_info = redact hidden,
      builtin_str = (\<lambda>_. ''?'')\<rparr>"

text \<open>
  An example: a login request under the endpoint \<open>http://api/\<close>, whose header refers to a
  variable of its own \<open>vars\<close> and whose test reads the response; the world is empty.
\<close>

definition login_endpoint :: EndpointNode where
  "login_endpoint =
     \<lparr>endpoint_path = ''http://api/'',
      endpoint_headers = [(''Accept'', VStr ''json'')],
      endpoint_params = []\<rparr>"

definition login_spec :: dict where
  "login_spec =
     [(''name'', VStr ''login''),
      (''path'', VStr ''/users''),
      (''vars'', VDict [(''token'', VStr ''secret123'')]),
      (''headers'', VDict [(''Authorization'', VStr ''${token}'')]),
      (''tests'', VList [VDict [(''name'', VStr ''auth''),
                              (''header'', VStr ''Authorization''),
                              (''equals'', VStr ''secret123'')]])]"

definition login :: RequestNode where
  "login = \<lparr>spec = login_spec, endpoint = login_endpoint\<rparr>"

definition empty_world :: world where
  "empty_world = \<lparr>registry = [], ancestors = [], objects = []\<rparr>"

section \<open>Evaluating the example\<close>

lemmas key_defs =
  BODY_KEY_def HEADERS_KEY_def METHOD_KEY_def NAME_KEY_def
  PARAMS_KEY_def PATH_KEY_def TESTS_KEY_def VARS_KEY_def

lemma login_run:
  "run (reference [''Authorization'']) login (empty_world, []) =
     (Inr \<lparr>response = 0,
           tests_results = [\<lparr>test_name = ''auth'', status = PASSED, failure = None\<rparr>],
           no_failure = True\<rparr>,
      \<lparr>registry = [(''token'', VStr ''secret123''), (''response'', VObj 0)],
        ancestors = [],
        objects = [\<lparr>status_code = 200,
                    resp_headers = [(''Accept'', VStr ''json''),
                                    (''Authorization'', VStr ''SENSITIVE_INFORMATION'')],
                    resp_body = VNone\<rparr>]\<rparr>,
      [Evaluate (VStr ''http://api/users''),
       Update (VDict [(''token'', VStr ''secret123'')]) None False,
       Evaluate (VDict [(''Accept'', VStr ''json''), (''Authorization'', VStr ''${token}'')]),
       Evaluate (VDict []),
       Evaluate VNone,
       Request \<lparr>req_method = ''GET'', req_url = VStr ''http://api/users'',
                req_headers = VDict [(''Accept'', VStr ''json''),
                                     (''Authorization'', VStr ''secret123'')],
                req_params = VDict [], req_json = VNone, allow_redirects = False\<rparr>,
       Update (VDict [(''token'', VStr ''secret123'')]) (Some [(''response'', VObj 0)]) True,
       TestRun (VDict [(''name'', VStr ''auth''), (''header'', VStr ''Authorization''),
                       (''equals'', VStr ''secret123'')]),
       Hide 0])"
  by code_simp

section \<open>Reasoning about actions\<close>

lemma call_iff:
  "call ev f (w, tr) = (r, (w', tr')) \<longleftrightarrow> f w = (r, w') \<and> tr' = tr @ [ev]"
  by (auto simp: call_def split: prod.splits)

lemma bnd_iff:
  "bnd m f s = (res, s') \<longleftrightarrow>
     (\<exists>e. m s = (Inl e, s') \<and> res = Inl e) \<or> (\<exists>x s1. m s = (Inr x, s1) \<and> f x s1 = (res, s'))"
  by (auto simp: bnd_def split: prod.splits sum.splits)

lemma lift_iff: "lift r s = (x, s') \<longleftrightarrow> r = x \<and> s' = s"
  by (auto simp: lift_def)

lemma ret_iff: "ret v s = (x, s') \<longleftrightarrow> x = Inr v \<and> s' = s"
  by (auto simp: ret_def)

lemma raise_iff: "raise e s = (x, s') \<longleftrightarrow> x = Inl e \<and> s' = s"
  by (auto simp: raise_def)

lemmas action_iffs = bnd_iff lift_iff ret_iff raise_iff call_iff

lemmas collab_calls = evaluate_def update_def request_def testing_node_run_def hide_def

lemma run_each_Cons_cases:
  assumes "run_each C (t # ts) (w, tr) = (res, (w', tr'))"
  shows "(\<exists>e. test_run C t w = (Inl e, w') \<and> res = Inl e \<and> tr' = tr @ [TestRun t]) \<or>
         (\<exists>r w1 res1. test_run C t w = (Inr r, w1) \<and>
            run_each C ts (w1, tr @ [TestRun t]) = (res1, (w', tr')) \<and>
            res = (case res1 of Inl e \<Rightarrow> Inl e | Inr rs \<Rightarrow> Inr (r # rs)))"
  using assms by (auto simp: action_iffs collab_calls)

lemma run_each_trace:
  "run_each C ts (w, tr) = (res, (w', tr')) \<Longrightarrow>
     \<exists>k \<le> length ts. tr' = tr @ map TestRun (take k ts)"
proof (induction ts arbitrary: w tr res)
  case Nil
  then show ?case by (auto simp: ret_iff)
next
  case (Cons t ts)
  from run_each_Cons_cases[OF Cons.prems] show ?case
  proof (elim disjE exE conjE)
    fix e assume "tr' = tr @ [TestRun t]"
    then show ?thesis by (intro exI[of _ 1]) simp
  next
    fix r w1 res1
    assume "run_each C ts (w1, tr @ [TestRun t]) = (res1, (w', tr'))"
    from Cons.IH[OF this] obtain k where "k \<le> length ts"
      "tr' = (tr @ [TestRun t]) @ map TestRun (take k ts)" by blast
    then show ?thesis by (intro exI[of _ "Suc k"]) simp
  qed
qed

lemma run_each_Cons_Inr:
  assumes "run_each C (t # ts) (w, tr) = (Inr rs, (w', tr'))"
  shows "\<exists>r w1 rs1. test_run C t w = (Inr r, w1) \<and>
            run_each C ts (w1, tr @ [TestRun t]) = (Inr rs1, (w', tr')) \<and> rs = r # rs1"
  using assms by (auto simp: action_iffs collab_calls)

lemma run_each_success:
  "run_each C ts (w, tr) = (Inr rs, (w', tr')) \<Longrightarrow>
     tr' = tr @ map TestRun ts \<and> length rs = length ts"
proof (induction ts arbitrary: w tr rs)
  case Nil
  then show ?case by (auto simp: ret_iff)
next
  case (Cons t ts)
  from run_each_Cons_Inr[OF Cons.prems] obtain r w1 rs1 where
    1: "run_each C ts (w1, tr @ [TestRun t]) = (Inr rs1, (w', tr'))" and 2: "rs = r # rs1"
    by blast
  from Cons.IH[OF 1] 2 show ?case by simp
qed

lemma run_success:
  assumes "run C self (w, tr0) = (Inr b, (w', tr))"
  shows "\<exists>m hs ps ts U w1 w2 H w3 P w4 B w5 w6 w7 w8 pre.
    http_method self = Inr m \<and>
    dict_get (spec self) HEADERS_KEY (VDict []) = VDict hs \<and>
    dict_get (spec self) PARAMS_KEY (VDict []) = VDict ps \<and>
    tests self = Inr ts \<and>
    vars_evaluate C (joined_url C self) w = (Inr U, w1) \<and>
    vars_update C (configured_vars self) None False w1 = (Inr (), w2) \<and>
    vars_evaluate C (VDict (dict_merge (endpoint_headers (endpoint self)) hs)) w2 = (Inr H, w3) \<and>
    vars_evaluate C (VDict (dict_merge (endpoint_params (endpoint self)) ps)) w3 = (Inr P, w4) \<and>
    vars_evaluate C (dict_get (spec self) BODY_KEY VNone) w4 = (Inr B, w5) \<and>
    requests_request C \<lparr>req_method = m, req_url = U, req_headers = H, req_params = P,
        req_json = B, allow_redirects = False\<rparr> w5 = (Inr (response b), w6) \<and>
    vars_update C (configured_vars self) (response_extras (response b)) True w6 = (Inr (), w7) \<and>
    pre = tr0 @
        [Evaluate (joined_url C self),
         Update (configured_vars self) None False,
         Evaluate (VDict (dict_merge (endpoint_headers (endpoint self)) hs)),
         Evaluate (VDict (dict_merge (endpoint_params (endpoint self)) ps)),
         Evaluate (dict_get (spec self) BODY_KEY VNone),
         Request \<lparr>req_method = m, req_url = U, req_headers = H, req_params = P,
           req_json = B, allow_redirects = False\<rparr>,
         Update (configured_vars self) (response_extras (response b)) True] \<and>
    run_each C ts (w7, pre) = (Inr (tests_results b), (w8, pre @ map TestRun ts)) \<and>
    hide_sensitive_info C (response b) w8 = (Inr (), w') \<and>
    tr = pre @ map TestRun ts @ [Hide (response b)] \<and>
    no_failure b = py_all (map (\<lambda>t. status t = PASSED) (tests_results b))"
  using assms
  apply (simp add: run_def action_iffs full_url_path_def headers_def params_def body_def
       collab_calls run_tests_def Let_def split: pyval.splits)
  apply (elim exE conjE)
  apply (frule run_each_success)
  apply auto
  done

lemma run_trace_prefix:
  assumes "run C self (w, []) = (res, (w', tr))"
  shows "\<exists>hs ps m U H P B r ts.
     prefix tr
       ([Evaluate (joined_url C self),
         Update (configured_vars self) None False,
         Evaluate (VDict (dict_merge (endpoint_headers (endpoint self)) hs)),
         Evaluate (VDict (dict_merge (endpoint_params (endpoint self)) ps)),
         Evaluate (dict_get (spec self) BODY_KEY VNone),
         Request \<lparr>req_method = m, req_url = U, req_headers = H, req_params = P,
           req_json = B, allow_redirects = False\<rparr>,
         Update (configured_vars self) (response_extras r) True]
        @ map TestRun ts @ [Hide r]) \<and>
     (tr = [] \<or> http_method self = Inr m)"
  using assms
  apply (simp add: run_def action_iffs full_url_path_def headers_def params_def body_def
       collab_calls run_tests_def Let_def split: pyval.splits)
  apply (elim exE conjE disjE)
  apply (auto dest!: run_each_trace)
  done

section \<open>The aggregate flag\<close>





section \<open>The HTTP method\<close>

lemma dict_keys_dict_set:
  "k \<in> set (dict_keys d) \<Longrightarrow> dict_keys (dict_set d k v) = dict_keys d"
  by (induction d) (force simp: dict_keys_def)+

lemma map_of_in_dict_keys: "map_of d k = Some v \<Longrightarrow> k \<in> set (dict_keys d)"
  by (auto simp: dict_keys_def dest: map_of_SomeD intro: rev_image_eqI)

lemma upper_examples:
  "upper ''get'' = ''GET''" "upper ''Post'' = ''POST''" "upper ''options'' = ''OPTIONS''"
  by code_simp+

text \<open>
  C4. For a configured method string \<open>m\<close>, the property \<open>http_method\<close> returns \<open>m\<close> in
  upper case when that is one of GET, POST, PUT, PATCH, DELETE, and otherwise raises
  \<open>HTTPMethodNotAllowedError\<close> with the upper-cased value and the allowed methods. The
  constructor does not look at the value: with any other value \<open>v\<close> under the method key it
  fails with the same error or returns the node all the same.
\<close>

theorem http_method_checked_on_access:
  assumes "map_of sp METHOD_KEY = Some (VStr m)"
  shows "http_method \<lparr>spec = sp, endpoint = ep\<rparr> =
           (if upper m \<in> {''GET'', ''POST'', ''PUT'', ''PATCH'', ''DELETE''}
            then Inr (upper m)
            else Inl (HTTPMethodNotAllowedError (upper m)
                        [''GET'', ''POST'', ''PUT'', ''PATCH'', ''DELETE''])) \<and>
         RequestNode_init (dict_set sp METHOD_KEY v) ep =
           (case RequestNode_init sp ep of
              Inl e \<Rightarrow> Inl e
            | Inr self \<Rightarrow> Inr (self\<lparr>spec := dict_set sp METHOD_KEY v\<rparr>))"
proof -
  have "dict_get sp METHOD_KEY (VStr ''get'') = VStr m"
    using assms by (simp add: dict_get_def)
  then have 1: "http_method \<lparr>spec = sp, endpoint = ep\<rparr> =
           (if upper m \<in> {''GET'', ''POST'', ''PUT'', ''PATCH'', ''DELETE''}
            then Inr (upper m)
            else Inl (HTTPMethodNotAllowedError (upper m)
                        [''GET'', ''POST'', ''PUT'', ''PATCH'', ''DELETE'']))"
    by (simp add: http_method_def ALLOWED_HTTP_METHODS_def Let_def)
  have "dict_keys (dict_set sp METHOD_KEY v) = dict_keys sp"
    using assms by (intro dict_keys_dict_set map_of_in_dict_keys)
  then have 2: "RequestNode_init (dict_set sp METHOD_KEY v) ep =
           (case RequestNode_init sp ep of
              Inl e \<Rightarrow> Inl e
            | Inr self \<Rightarrow> Inr (self\<lparr>spec := dict_set sp METHOD_KEY v\<rparr>))"
    by (simp add: RequestNode_init_def validate_def Let_def split: sum.splits)
  from 1 2 show ?thesis by simp
qed

theorem http_method_checked_on_access_witness:
  "map_of [(''name'', VStr ''r''), (''method'', VStr ''options'')] METHOD_KEY
     = Some (VStr ''options'') \<and>
   http_method \<lparr>spec = [(''name'', VStr ''r''), (''method'', VStr ''options'')],
                endpoint = login_endpoint\<rparr>
     = Inl (HTTPMethodNotAllowedError ''OPTIONS'' [''GET'', ''POST'', ''PUT'', ''PATCH'', ''DELETE'']) \<and>
   RequestNode_init [(''name'', VStr ''r''), (''method'', VStr ''options'')] login_endpoint
     = Inr \<lparr>spec = [(''name'', VStr ''r''), (''method'', VStr ''options'')],
            endpoint = login_endpoint\<rparr> \<and>
   map_of [(''name'', VStr ''r''), (''method'', VStr ''get'')] METHOD_KEY
     = Some (VStr ''get'') \<and>
   http_method \<lparr>spec = [(''name'', VStr ''r''), (''method'', VStr ''get'')],
                endpoint = login_endpoint\<rparr>
     = Inr ''GET'' \<and>
   RequestNode_init [(''name'', VStr ''r''), (''method'', VStr ''get'')] login_endpoint
     = Inr \<lparr>spec = [(''name'', VStr ''r''), (''method'', VStr ''get'')],
            endpoint = login_endpoint\<rparr>"
proof -
  have h: "map_of [(''name'', VStr ''r''), (''method'', VStr ''options'')] METHOD_KEY
     = Some (VStr ''options'')"
    by (simp add: METHOD_KEY_def)
  have g: "map_of [(''name'', VStr ''r''), (''method'', VStr ''get'')] METHOD_KEY
     = Some (VStr ''get'')"
    by (simp add: METHOD_KEY_def)
  have init: "RequestNode_init [(''name'', VStr ''r''), (''method'', VStr ''options'')] login_endpoint
     = Inr \<lparr>spec = [(''name'', VStr ''r''), (''method'', VStr ''options'')],
            endpoint = login_endpoint\<rparr>"
    by code_simp
  show ?thesis
    using h g init
      http_method_checked_on_access[OF h, of login_endpoint "VStr ''get''"]
      http_method_checked_on_access[OF g, of login_endpoint "VStr ''get''"]
    by (simp add: upper_examples METHOD_KEY_def)
qed

lemma run_requests:
  assumes "run C self (w, []) = (res, (w', tr))" and "Request rq \<in> set tr"
  shows "http_method self = Inr (req_method rq) \<and> allow_redirects rq = False"
proof -
  from run_trace_prefix[OF assms(1)] obtain full m U H P B where
    p: "prefix tr full" and
    full: "\<forall>rq. Request rq \<in> set full \<longrightarrow>
       rq = \<lparr>req_method = m, req_url = U, req_headers = H, req_params = P,
             req_json = B, allow_redirects = False\<rparr>" and
    m: "tr = [] \<or> http_method self = Inr m"
    by (elim exE conjE) (rule that, assumption, auto)
  from p assms(2) have "Request rq \<in> set full"
    using set_mono_prefix by blast
  with full have "rq = \<lparr>req_method = m, req_url = U, req_headers = H, req_params = P,
             req_json = B, allow_redirects = False\<rparr>" by blast
  moreover from assms(2) m have "http_method self = Inr m" by auto
  ultimately show ?thesis by simp
qed

text \<open>
  C10. When the configuration has no method key, \<open>http_method\<close> returns \<open>GET\<close>, so it
  does not raise; every transport call of an execution of \<open>run\<close> carries the method
  \<open>GET\<close>, and an execution that returns a bundle has made such a call.
\<close>

theorem http_method_default_get:
  assumes "METHOD_KEY \<notin> set (dict_keys (spec self))"
    and "run C self (w, []) = (res, (w', tr))"
  shows "http_method self = Inr ''GET'' \<and>
         (\<forall>rq. Request rq \<in> set tr \<longrightarrow> req_method rq = ''GET'') \<and>
         (\<forall>b. res = Inr b \<longrightarrow> (\<exists>rq. Request rq \<in> set tr \<and> req_method rq = ''GET''))"
proof -
  have "map_of (spec self) METHOD_KEY = None"
    using assms(1) by (simp add: dict_keys_def map_of_eq_None_iff)
  then have get: "http_method self = Inr ''GET''"
    by (simp add: http_method_def dict_get_def upper_examples ALLOWED_HTTP_METHODS_def)
  have all: "req_method rq = ''GET''" if "Request rq \<in> set tr" for rq
    using run_requests[OF assms(2) that] get by simp
  have ex: "\<exists>rq. Request rq \<in> set tr \<and> req_method rq = ''GET''" if "res = Inr b" for b
  proof -
    from run_success[OF assms(2)[unfolded that]] have "\<exists>rq. Request rq \<in> set tr"
      by (elim exE conjE) auto
    with all show ?thesis by blast
  qed
  from get all ex show ?thesis by blast
qed

theorem http_method_default_get_witness:
  "METHOD_KEY \<notin> set (dict_keys (spec login)) \<and>
   http_method login = Inr ''GET'' \<and>
   (\<exists>rq. Request rq \<in> set (snd (snd (run (reference [''Authorization'']) login (empty_world, []))))
      \<and> req_method rq = ''GET'')"
proof -
  have h: "METHOD_KEY \<notin> set (dict_keys (spec login))"
    by (simp add: METHOD_KEY_def dict_keys_def login_def login_spec_def)
  show ?thesis
    using h http_method_default_get[OF h login_run] by (simp add: login_run)
qed

section \<open>Validation of the configuration keys\<close>

lemma allowed_keys_set:
  "set ALLOWED_KEYS =
     {''body'', ''headers'', ''method'', ''name'', ''params'', ''path'', ''tests'', ''vars''}"
  by (simp add: ALLOWED_KEYS_def key_defs)

lemma validate_keys_cases:
  "validate_keys keys available [r] scope =
     (if \<not> set keys \<subseteq> set available
      then Inl (ValidationError (filter (\<lambda>k. k \<notin> set available) keys) scope)
      else if r \<notin> set keys then Inl (ValidationError [r] scope)
      else Inr ())"
proof -
  have u: "filter (\<lambda>k. k \<notin> set available) keys = [] \<longleftrightarrow> set keys \<subseteq> set available"
    unfolding filter_empty_conv by blast
  show ?thesis
    unfolding validate_keys_def Let_def using u by auto
qed

text \<open>
  C7. The constructor validates the key set of the configuration fragment: a key outside
  body, headers, method, name, params, path, tests, vars is a validation error that names
  the unknown keys and the scope \<open>request\<close>; otherwise a missing \<open>name\<close> is a validation
  error that names it, with the same scope; otherwise the node is returned.
\<close>

theorem request_node_validation:
  "RequestNode_init sp ep =
     (if \<not> set (dict_keys sp) \<subseteq>
           {''body'', ''headers'', ''method'', ''name'', ''params'', ''path'', ''tests'', ''vars''}
      then Inl (ValidationError
                  (filter (\<lambda>k. k \<notin> {''body'', ''headers'', ''method'', ''name'', ''params'',
                                      ''path'', ''tests'', ''vars''}) (dict_keys sp))
                  ''request'')
      else if ''name'' \<notin> set (dict_keys sp)
      then Inl (ValidationError [''name''] ''request'')
      else Inr \<lparr>spec = sp, endpoint = ep\<rparr>)"
  unfolding RequestNode_init_def validate_def Let_def REQUIRED_KEYS_def validate_keys_cases
    allowed_keys_set
  unfolding SCOPE_def NAME_KEY_def
  by (simp only: RequestNode.simps split: if_splits sum.splits) simp

theorem request_node_validation_witness:
  "RequestNode_init [(''name'', VStr ''r''), (''foo'', VInt 1)] login_endpoint
     = Inl (ValidationError [''foo''] ''request'') \<and>
   RequestNode_init [(''path'', VStr ''/users'')] login_endpoint
     = Inl (ValidationError [''name''] ''request'') \<and>
   RequestNode_init login_spec login_endpoint = Inr login"
  using request_node_validation[of "[(''name'', VStr ''r''), (''foo'', VInt 1)]" login_endpoint]
    request_node_validation[of "[(''path'', VStr ''/users'')]" login_endpoint]
    request_node_validation[of login_spec login_endpoint]
  by (simp add: dict_keys_def login_spec_def login_def)

section \<open>The URL path\<close>

lemma takeWhile_eq_replicate:
  "takeWhile (\<lambda>c. c = x) xs = replicate (length (takeWhile (\<lambda>c. c = x) xs)) x"
  by (induction xs) auto

lemma lstrip_slash_decomp:
  "\<exists>m. s = replicate m (CHR ''/'') @ lstrip_slash s"
proof -
  have "s = takeWhile (\<lambda>c. c = CHR ''/'') s @ lstrip_slash s"
    by (simp add: lstrip_slash_def)
  then show ?thesis
    using takeWhile_eq_replicate[of "CHR ''/''" s] by metis
qed

lemma lstrip_slash_hd: "lstrip_slash s = [] \<or> hd (lstrip_slash s) \<noteq> CHR ''/''"
  using hd_dropWhile[of "\<lambda>c. c = CHR ''/''" s] by (auto simp: lstrip_slash_def)

lemma rstrip_slash_decomp:
  "\<exists>n. s = rstrip_slash s @ replicate n (CHR ''/'')"
proof -
  have "rev s = takeWhile (\<lambda>c. c = CHR ''/'') (rev s) @ dropWhile (\<lambda>c. c = CHR ''/'') (rev s)"
    by simp
  then have "s = rstrip_slash s @ rev (takeWhile (\<lambda>c. c = CHR ''/'') (rev s))"
    unfolding rstrip_slash_def by (metis rev_append rev_rev_ident)
  moreover have "rev (takeWhile (\<lambda>c. c = CHR ''/'') (rev s))
      = replicate (length (takeWhile (\<lambda>c. c = CHR ''/'') (rev s))) (CHR ''/'')"
    using takeWhile_eq_replicate[of "CHR ''/''" "rev s"] by (metis rev_replicate)
  ultimately show ?thesis by metis
qed

lemma rstrip_slash_last: "rstrip_slash s = [] \<or> last (rstrip_slash s) \<noteq> CHR ''/''"
  using hd_dropWhile[of "\<lambda>c. c = CHR ''/''" "rev s"]
  by (auto simp: rstrip_slash_def last_rev)

text \<open>
  C6. With \<open>B\<close> the parent endpoint's path and \<open>S\<close> the configured child path as a string,
  \<open>full_url_path\<close> makes one call of the namespace's evaluator, on the joined string; and
  the joined string is \<open>B\<close> without its trailing slashes, one slash, and \<open>S\<close> without its
  leading slashes.
\<close>

theorem full_url_path_joins_then_evaluates:
  assumes "endpoint_path (endpoint self) = B"
    and "py_str C (dict_get (spec self) PATH_KEY (VStr '''')) = S"
  shows "full_url_path C self (w, tr) =
           (case vars_evaluate C (VStr (join_urls B S)) w of
              (r, w') \<Rightarrow> (r, (w', tr @ [Evaluate (VStr (join_urls B S))]))) \<and>
         (\<exists>b s n m. B = b @ replicate n (CHR ''/'') \<and> S = replicate m (CHR ''/'') @ s \<and>
            (b = [] \<or> last b \<noteq> CHR ''/'') \<and> (s = [] \<or> hd s \<noteq> CHR ''/'') \<and>
            join_urls B S = b @ ''/'' @ s)"
proof -
  have 1: "full_url_path C self (w, tr) =
           (case vars_evaluate C (VStr (join_urls B S)) w of
              (r, w') \<Rightarrow> (r, (w', tr @ [Evaluate (VStr (join_urls B S))])))"
    using assms by (simp add: full_url_path_def evaluate_def call_def Let_def)
  obtain n where n: "B = rstrip_slash B @ replicate n (CHR ''/'')"
    using rstrip_slash_decomp by blast
  obtain m where m: "S = replicate m (CHR ''/'') @ lstrip_slash S"
    using lstrip_slash_decomp by blast
  have "join_urls B S = rstrip_slash B @ ''/'' @ lstrip_slash S"
    by (simp add: join_urls_def)
  with n m rstrip_slash_last[of B] lstrip_slash_hd[of S]
  have 2: "\<exists>b s n m. B = b @ replicate n (CHR ''/'') \<and> S = replicate m (CHR ''/'') @ s \<and>
            (b = [] \<or> last b \<noteq> CHR ''/'') \<and> (s = [] \<or> hd s \<noteq> CHR ''/'') \<and>
            join_urls B S = b @ ''/'' @ s"
    by blast
  from 1 2 show ?thesis by blast
qed

lemma join_urls_examples:
  "join_urls ''/api/'' ''/users'' = ''/api/users''"
  "join_urls ''/api'' ''users'' = ''/api/users''"
  "join_urls ''http://api/'' ''/users'' = ''http://api/users''"
  by code_simp+

theorem full_url_path_joins_then_evaluates_witness:
  "endpoint_path (endpoint login) = ''http://api/'' \<and>
   py_str (reference []) (dict_get (spec login) PATH_KEY (VStr '''')) = ''/users'' \<and>
   full_url_path (reference []) login (empty_world, []) =
     (Inr (VStr ''http://api/users''), (empty_world, [Evaluate (VStr ''http://api/users'')])) \<and>
   join_urls ''/api/'' ''/users'' = ''/api/users'' \<and>
   join_urls ''/api'' ''users'' = ''/api/users''"
proof -
  have h1: "endpoint_path (endpoint login) = ''http://api/''"
    by (simp add: login_def login_endpoint_def)
  have h2: "py_str (reference []) (dict_get (spec login) PATH_KEY (VStr '''')) = ''/users''"
    by (simp add: login_def login_spec_def py_str_def dict_get_def PATH_KEY_def)
  have ev: "vars_evaluate (reference []) (VStr ''http://api/users'') empty_world
      = (Inr (VStr ''http://api/users''), empty_world)"
    by code_simp
  show ?thesis
    using h1 h2 full_url_path_joins_then_evaluates[OF h1 h2, of empty_world "[]"]
    by (simp add: join_urls_examples ev)
qed

section \<open>Headers and params\<close>

lemma map_of_dict_set: "map_of (dict_set d k v) = (map_of d)(k \<mapsto> v)"
  by (induction d) auto

lemma dict_keys_dict_set_cases:
  "dict_keys (dict_set d k v) =
     (if k \<in> set (dict_keys d) then dict_keys d else dict_keys d @ [k])"
  by (induction d) (force simp: dict_keys_def)+

lemma dict_keys_Cons: "dict_keys ((k, v) # d) = k # dict_keys d"
  by (simp add: dict_keys_def)

lemma dict_merge_Cons: "dict_merge a ((k, v) # b) = dict_merge (dict_set a k v) b"
  by (simp add: dict_merge_def)

lemma dict_merge_Nil: "dict_merge a [] = a"
  by (simp add: dict_merge_def)

lemma map_of_dict_merge:
  "distinct (dict_keys b) \<Longrightarrow>
     map_of (dict_merge a b) k = (case map_of b k of Some v \<Rightarrow> Some v | None \<Rightarrow> map_of a k)"
proof (induction b arbitrary: a)
  case Nil
  then show ?case by (simp add: dict_merge_Nil)
next
  case (Cons p b)
  obtain k' v' where p: "p = (k', v')" by (cases p)
  from Cons.prems have d: "distinct (dict_keys b)" and n: "map_of b k' = None"
    by (auto simp: p dict_keys_def map_of_eq_None_iff)
  show ?case
    using Cons.IH[OF d, of "dict_set a k' v'"] n
    by (auto simp: p dict_merge_Cons map_of_dict_set split: option.splits)
qed

lemma dict_keys_dict_merge:
  "distinct (dict_keys b) \<Longrightarrow>
     dict_keys (dict_merge a b) =
       dict_keys a @ filter (\<lambda>k. k \<notin> set (dict_keys a)) (dict_keys b)"
proof (induction b arbitrary: a)
  case Nil
  then show ?case by (simp add: dict_merge_Nil dict_keys_def)
next
  case (Cons p b)
  obtain k' v' where p: "p = (k', v')" by (cases p)
  from Cons.prems have d: "distinct (dict_keys b)" and n: "k' \<notin> set (dict_keys b)"
    by (auto simp: p dict_keys_def)
  have f: "filter (\<lambda>k. k \<noteq> k' \<and> k \<notin> set (dict_keys a)) (dict_keys b)
      = filter (\<lambda>k. k \<notin> set (dict_keys a)) (dict_keys b)"
    using n by (intro filter_cong) auto
  show ?case
    using Cons.IH[OF d, of "dict_set a k' v'"] f
    by (simp add: p dict_keys_Cons dict_merge_Cons dict_keys_dict_set_cases)
qed

text \<open>
  C5. For a node whose own headers and params are mappings \<open>hs\<close> and \<open>ps\<close> (an absent key
  is the empty mapping), \<open>headers\<close> and \<open>params\<close> each make one call of the evaluator, on
  the merge of the endpoint's mapping with the node's own, unevaluated. In the merge a
  name has the node's own value when the node binds it and the endpoint's value
  otherwise, and its keys are the endpoint's keys followed by the node's new ones.
\<close>

theorem headers_params_merged_then_evaluated:
  assumes "dict_get (spec self) HEADERS_KEY (VDict []) = VDict hs"
    and "dict_get (spec self) PARAMS_KEY (VDict []) = VDict ps"
    and "distinct (dict_keys hs)" and "distinct (dict_keys ps)"
    and "endpoint_headers (endpoint self) = eh" and "endpoint_params (endpoint self) = ep"
  shows "headers C self (w, tr) =
           (case vars_evaluate C (VDict (dict_merge eh hs)) w of
              (r, w') \<Rightarrow> (r, (w', tr @ [Evaluate (VDict (dict_merge eh hs))]))) \<and>
         params C self (w, tr) =
           (case vars_evaluate C (VDict (dict_merge ep ps)) w of
              (r, w') \<Rightarrow> (r, (w', tr @ [Evaluate (VDict (dict_merge ep ps))]))) \<and>
         (\<forall>k. map_of (dict_merge eh hs) k =
                (case map_of hs k of Some v \<Rightarrow> Some v | None \<Rightarrow> map_of eh k)) \<and>
         (\<forall>k. map_of (dict_merge ep ps) k =
                (case map_of ps k of Some v \<Rightarrow> Some v | None \<Rightarrow> map_of ep k)) \<and>
         dict_keys (dict_merge eh hs) =
           dict_keys eh @ filter (\<lambda>k. k \<notin> set (dict_keys eh)) (dict_keys hs) \<and>
         dict_keys (dict_merge ep ps) =
           dict_keys ep @ filter (\<lambda>k. k \<notin> set (dict_keys ep)) (dict_keys ps)"
proof -
  have h: "headers C self (w, tr) =
           (case vars_evaluate C (VDict (dict_merge eh hs)) w of
              (r, w') \<Rightarrow> (r, (w', tr @ [Evaluate (VDict (dict_merge eh hs))])))"
    using assms(1,5) by (simp add: headers_def evaluate_def call_def Let_def)
  have p: "params C self (w, tr) =
           (case vars_evaluate C (VDict (dict_merge ep ps)) w of
              (r, w') \<Rightarrow> (r, (w', tr @ [Evaluate (VDict (dict_merge ep ps))])))"
    using assms(2,6) by (simp add: params_def evaluate_def call_def Let_def)
  from h p map_of_dict_merge[OF assms(3)] map_of_dict_merge[OF assms(4)]
    dict_keys_dict_merge[OF assms(3)] dict_keys_dict_merge[OF assms(4)]
  show ?thesis by simp
qed

theorem headers_params_merged_then_evaluated_witness:
  "dict_get (spec login) HEADERS_KEY (VDict []) = VDict [(''Authorization'', VStr ''${token}'')] \<and>
   dict_get (spec login) PARAMS_KEY (VDict []) = VDict [] \<and>
   distinct (dict_keys [(''Authorization'', VStr ''${token}'')]) \<and>
   distinct (dict_keys []) \<and>
   headers (reference []) login (empty_world, []) =
     (Inl (TemplateResolutionError ''token''),
      (empty_world,
       [Evaluate (VDict [(''Accept'', VStr ''json''), (''Authorization'', VStr ''${token}'')])])) \<and>
   params (reference []) login (empty_world, []) =
     (Inr (VDict []), (empty_world, [Evaluate (VDict [])])) \<and>
   dict_merge [(''Accept'', VStr ''json''), (''X'', VStr ''parent'')]
              [(''X'', VStr ''own''), (''Y'', VStr ''new'')]
     = [(''Accept'', VStr ''json''), (''X'', VStr ''own''), (''Y'', VStr ''new'')]"
proof -
  have h1: "dict_get (spec login) HEADERS_KEY (VDict [])
      = VDict [(''Authorization'', VStr ''${token}'')]"
    by (simp add: login_def login_spec_def dict_get_def HEADERS_KEY_def)
  have h2: "dict_get (spec login) PARAMS_KEY (VDict []) = VDict []"
    by (simp add: login_def login_spec_def dict_get_def PARAMS_KEY_def)
  have h3: "distinct (dict_keys [(''Authorization'', VStr ''${token}'')])"
    by (simp add: dict_keys_def)
  have h4: "distinct (dict_keys [])"
    by (simp add: dict_keys_def)
  have h5: "endpoint_headers (endpoint login) = [(''Accept'', VStr ''json'')]"
    by (simp add: login_def login_endpoint_def)
  have h6: "endpoint_params (endpoint login) = []"
    by (simp add: login_def login_endpoint_def)
  have m1: "dict_merge [(''Accept'', VStr ''json'')] [(''Authorization'', VStr ''${token}'')]
      = [(''Accept'', VStr ''json''), (''Authorization'', VStr ''${token}'')]"
    by (simp add: dict_merge_def)
  have m2: "dict_merge [(''Accept'', VStr ''json''), (''X'', VStr ''parent'')]
              [(''X'', VStr ''own''), (''Y'', VStr ''new'')]
     = [(''Accept'', VStr ''json''), (''X'', VStr ''own''), (''Y'', VStr ''new'')]"
    by (simp add: dict_merge_def)
  have e1: "vars_evaluate (reference [])
        (VDict [(''Accept'', VStr ''json''), (''Authorization'', VStr ''${token}'')]) empty_world
      = (Inl (TemplateResolutionError ''token''), empty_world)"
    by code_simp
  have e2: "vars_evaluate (reference []) (VDict []) empty_world = (Inr (VDict []), empty_world)"
    by code_simp
  show ?thesis
    using h1 h2 h3 h4
      headers_params_merged_then_evaluated[OF h1 h2 h3 h4 h5 h6, of "reference []" empty_world "[]"]
    by (simp add: m1 m2 e1 e2 dict_merge_Nil)
qed

section \<open>Executions of run\<close>

lemma filter_map_TestRun:
  "filter is_Update (map TestRun ts) = []"
  "filter is_Request (map TestRun ts) = []"
  "filter is_Hide (map TestRun ts) = []"
  by (induction ts) auto

text \<open>
  A returning execution, as the chain of its steps: each step starts in the state the
  previous one left, and the trace lists the collaborator calls in order.
\<close>

lemma run_success_chain:
  assumes "run C self (w, []) = (Inr b, (w', tr))"
  shows "\<exists>m U H P B ts hs ps s1 s2 s3 s4 s5 s6 s7 s8.
    http_method self = Inr m \<and>
    tests self = Inr ts \<and>
    dict_get (spec self) HEADERS_KEY (VDict []) = VDict hs \<and>
    dict_get (spec self) PARAMS_KEY (VDict []) = VDict ps \<and>
    full_url_path C self (w, []) = (Inr U, s1) \<and>
    update C (configured_vars self) None False s1 = (Inr (), s2) \<and>
    headers C self s2 = (Inr H, s3) \<and>
    params C self s3 = (Inr P, s4) \<and>
    body C self s4 = (Inr B, s5) \<and>
    request C \<lparr>req_method = m, req_url = U, req_headers = H, req_params = P,
        req_json = B, allow_redirects = False\<rparr> s5 = (Inr (response b), s6) \<and>
    update C (configured_vars self) (response_extras (response b)) True s6 = (Inr (), s7) \<and>
    run_tests C self s7 = (Inr (tests_results b), s8) \<and>
    hide C (response b) s8 = (Inr (), (w', tr)) \<and>
    tr = [Evaluate (joined_url C self),
          Update (configured_vars self) None False,
          Evaluate (VDict (dict_merge (endpoint_headers (endpoint self)) hs)),
          Evaluate (VDict (dict_merge (endpoint_params (endpoint self)) ps)),
          Evaluate (dict_get (spec self) BODY_KEY VNone),
          Request \<lparr>req_method = m, req_url = U, req_headers = H, req_params = P,
            req_json = B, allow_redirects = False\<rparr>,
          Update (configured_vars self) (response_extras (response b)) True]
         @ map TestRun ts @ [Hide (response b)]"
proof -
  from run_success[OF assms]
  obtain m hs ps ts U w1 w2 H w3 P w4 B w5 w6 w7 w8 pre where
    m: "http_method self = Inr m" and
    hs: "dict_get (spec self) HEADERS_KEY (VDict []) = VDict hs" and
    ps: "dict_get (spec self) PARAMS_KEY (VDict []) = VDict ps" and
    ts: "tests self = Inr ts" and
    e1: "vars_evaluate C (joined_url C self) w = (Inr U, w1)" and
    e2: "vars_update C (configured_vars self) None False w1 = (Inr (), w2)" and
    e3: "vars_evaluate C (VDict (dict_merge (endpoint_headers (endpoint self)) hs)) w2 = (Inr H, w3)" and
    e4: "vars_evaluate C (VDict (dict_merge (endpoint_params (endpoint self)) ps)) w3 = (Inr P, w4)" and
    e5: "vars_evaluate C (dict_get (spec self) BODY_KEY VNone) w4 = (Inr B, w5)" and
    e6: "requests_request C \<lparr>req_method = m, req_url = U, req_headers = H, req_params = P,
        req_json = B, allow_redirects = False\<rparr> w5 = (Inr (response b), w6)" and
    e7: "vars_update C (configured_vars self) (response_extras (response b)) True w6 = (Inr (), w7)" and
    pre: "pre = [] @
        [Evaluate (joined_url C self),
         Update (configured_vars self) None False,
         Evaluate (VDict (dict_merge (endpoint_headers (endpoint self)) hs)),
         Evaluate (VDict (dict_merge (endpoint_params (endpoint self)) ps)),
         Evaluate (dict_get (spec self) BODY_KEY VNone),
         Request \<lparr>req_method = m, req_url = U, req_headers = H, req_params = P,
           req_json = B, allow_redirects = False\<rparr>,
         Update (configured_vars self) (response_extras (response b)) True]" and
    e8: "run_each C ts (w7, pre) = (Inr (tests_results b), (w8, pre @ map TestRun ts))" and
    e9: "hide_sensitive_info C (response b) w8 = (Inr (), w')" and
    tr: "tr = pre @ map TestRun ts @ [Hide (response b)]"
    by blast
  define t1 where "t1 = [Evaluate (joined_url C self)]"
  define t2 where "t2 = t1 @ [Update (configured_vars self) None False]"
  define t3 where "t3 = t2 @ [Evaluate (VDict (dict_merge (endpoint_headers (endpoint self)) hs))]"
  define t4 where "t4 = t3 @ [Evaluate (VDict (dict_merge (endpoint_params (endpoint self)) ps))]"
  define t5 where "t5 = t4 @ [Evaluate (dict_get (spec self) BODY_KEY VNone)]"
  define t6 where "t6 = t5 @ [Request \<lparr>req_method = m, req_url = U, req_headers = H,
      req_params = P, req_json = B, allow_redirects = False\<rparr>]"
  have pre6: "pre = t6 @ [Update (configured_vars self) (response_extras (response b)) True]"
    by (simp add: pre t1_def t2_def t3_def t4_def t5_def t6_def)
  have c1: "full_url_path C self (w, []) = (Inr U, (w1, t1))"
    using e1 by (simp add: full_url_path_def evaluate_def call_def Let_def t1_def)
  have c2: "update C (configured_vars self) None False (w1, t1) = (Inr (), (w2, t2))"
    using e2 by (simp add: update_def call_def t2_def)
  have c3: "headers C self (w2, t2) = (Inr H, (w3, t3))"
    using e3 hs by (simp add: headers_def evaluate_def call_def Let_def t3_def)
  have c4: "params C self (w3, t3) = (Inr P, (w4, t4))"
    using e4 ps by (simp add: params_def evaluate_def call_def Let_def t4_def)
  have c5: "body C self (w4, t4) = (Inr B, (w5, t5))"
    using e5 by (simp add: body_def evaluate_def call_def t5_def)
  have c6: "request C \<lparr>req_method = m, req_url = U, req_headers = H, req_params = P,
        req_json = B, allow_redirects = False\<rparr> (w5, t5) = (Inr (response b), (w6, t6))"
    using e6 by (simp add: request_def call_def t6_def)
  have c7: "update C (configured_vars self) (response_extras (response b)) True (w6, t6)
      = (Inr (), (w7, pre))"
    using e7 by (simp add: update_def call_def pre6)
  have c8: "run_tests C self (w7, pre) = (Inr (tests_results b), (w8, pre @ map TestRun ts))"
    using e8 ts by (simp add: run_tests_def bnd_def lift_def)
  have c9: "hide C (response b) (w8, pre @ map TestRun ts) = (Inr (), (w', tr))"
    using e9 by (simp add: hide_def call_def tr)
  have tr': "tr = [Evaluate (joined_url C self),
          Update (configured_vars self) None False,
          Evaluate (VDict (dict_merge (endpoint_headers (endpoint self)) hs)),
          Evaluate (VDict (dict_merge (endpoint_params (endpoint self)) ps)),
          Evaluate (dict_get (spec self) BODY_KEY VNone),
          Request \<lparr>req_method = m, req_url = U, req_headers = H, req_params = P,
            req_json = B, allow_redirects = False\<rparr>,
          Update (configured_vars self) (response_extras (response b)) True]
         @ map TestRun ts @ [Hide (response b)]"
    by (simp add: tr pre)
  from m ts hs ps c1 c2 c3 c4 c5 c6 c7 c8 c9 tr' show ?thesis by blast
qed

lemma prefix_snoc_butlast:
  assumes "prefix tr (xs @ [y])"
  shows "prefix (butlast tr) xs"
proof -
  from assms have "tr = xs @ [y] \<or> prefix tr xs" by simp
  then show ?thesis
  proof
    assume "tr = xs @ [y]"
    then show ?thesis by simp
  next
    assume "prefix tr xs"
    with prefixeq_butlast[of tr] show ?thesis
      using prefix_order.order_trans by blast
  qed
qed

lemma prefix_filter_empty:
  "prefix xs ys \<Longrightarrow> filter P ys = [] \<Longrightarrow> filter P xs = []"
  using filter_mono_prefix[of xs ys P] by simp





text \<open>
  C8. In every execution of \<open>run\<close> the redaction call, if it is made, is the last
  collaborator call. When \<open>run\<close> returns, the trace ends with the test runs, one per
  test specification in order, followed by the redaction of the bundle's response: the
  tests ran from the state the post-call update left, the redaction started in the state
  the last test left, and the state \<open>run\<close> leaves is the state after the redaction.
\<close>

theorem run_hides_after_tests:
  assumes "run C self (w, []) = (res, (w', tr))"
  shows "filter is_Hide (butlast tr) = [] \<and>
         (\<forall>b. res = Inr b \<longrightarrow>
            (\<exists>before ts s6 s7 s8.
               tests self = Inr ts \<and>
               tr = before @ map TestRun ts @ [Hide (response b)] \<and>
               filter is_TestRun before = [] \<and> filter is_Hide before = [] \<and>
               update C (configured_vars self) (response_extras (response b)) True s6
                 = (Inr (), s7) \<and>
               run_tests C self s7 = (Inr (tests_results b), s8) \<and>
               length (tests_results b) = length ts \<and>
               hide C (response b) s8 = (Inr (), (w', tr))))"
proof -
  from run_trace_prefix[OF assms] obtain hs ps m U H P B r ts where
    p: "prefix tr
       ([Evaluate (joined_url C self),
         Update (configured_vars self) None False,
         Evaluate (VDict (dict_merge (endpoint_headers (endpoint self)) hs)),
         Evaluate (VDict (dict_merge (endpoint_params (endpoint self)) ps)),
         Evaluate (dict_get (spec self) BODY_KEY VNone),
         Request \<lparr>req_method = m, req_url = U, req_headers = H, req_params = P,
           req_json = B, allow_redirects = False\<rparr>,
         Update (configured_vars self) (response_extras r) True]
        @ map TestRun ts @ [Hide r])"
    by blast
  define xs where "xs =
        [Evaluate (joined_url C self),
         Update (configured_vars self) None False,
         Evaluate (VDict (dict_merge (endpoint_headers (endpoint self)) hs)),
         Evaluate (VDict (dict_merge (endpoint_params (endpoint self)) ps)),
         Evaluate (dict_get (spec self) BODY_KEY VNone),
         Request \<lparr>req_method = m, req_url = U, req_headers = H, req_params = P,
           req_json = B, allow_redirects = False\<rparr>,
         Update (configured_vars self) (response_extras r) True]
        @ map TestRun ts"
  have "prefix tr (xs @ [Hide r])"
    using p by (simp add: xs_def)
  then have "prefix (butlast tr) xs"
    by (rule prefix_snoc_butlast)
  moreover have "filter is_Hide xs = []"
    by (simp add: xs_def filter_map_TestRun)
  ultimately have 1: "filter is_Hide (butlast tr) = []"
    by (rule prefix_filter_empty)
  have 2: "\<exists>before ts s6 s7 s8.
               tests self = Inr ts \<and>
               tr = before @ map TestRun ts @ [Hide (response b)] \<and>
               filter is_TestRun before = [] \<and> filter is_Hide before = [] \<and>
               update C (configured_vars self) (response_extras (response b)) True s6
                 = (Inr (), s7) \<and>
               run_tests C self s7 = (Inr (tests_results b), s8) \<and>
               length (tests_results b) = length ts \<and>
               hide C (response b) s8 = (Inr (), (w', tr))"
    if "res = Inr b" for b
  proof -
    from run_success_chain[OF assms[unfolded that]]
    obtain m U H P B ts hs ps s6 s7 s8 where
      ts: "tests self = Inr ts" and
      u2: "update C (configured_vars self) (response_extras (response b)) True s6 = (Inr (), s7)" and
      rt: "run_tests C self s7 = (Inr (tests_results b), s8)" and
      hd: "hide C (response b) s8 = (Inr (), (w', tr))" and
      tr: "tr = [Evaluate (joined_url C self),
          Update (configured_vars self) None False,
          Evaluate (VDict (dict_merge (endpoint_headers (endpoint self)) hs)),
          Evaluate (VDict (dict_merge (endpoint_params (endpoint self)) ps)),
          Evaluate (dict_get (spec self) BODY_KEY VNone),
          Request \<lparr>req_method = m, req_url = U, req_headers = H, req_params = P,
            req_json = B, allow_redirects = False\<rparr>,
          Update (configured_vars self) (response_extras (response b)) True]
         @ map TestRun ts @ [Hide (response b)]"
      by blast
    define before where "before =
         [Evaluate (joined_url C self),
          Update (configured_vars self) None False,
          Evaluate (VDict (dict_merge (endpoint_headers (endpoint self)) hs)),
          Evaluate (VDict (dict_merge (endpoint_params (endpoint self)) ps)),
          Evaluate (dict_get (spec self) BODY_KEY VNone),
          Request \<lparr>req_method = m, req_url = U, req_headers = H, req_params = P,
            req_json = B, allow_redirects = False\<rparr>,
          Update (configured_vars self) (response_extras (response b)) True]"
    have a: "tr = before @ map TestRun ts @ [Hide (response b)]"
      by (simp add: tr before_def)
    have b: "filter is_TestRun before = []" "filter is_Hide before = []"
      by (simp_all add: before_def)
    obtain w7 t7 w8 t8 where s: "s7 = (w7, t7)" "s8 = (w8, t8)"
      by (cases s7, cases s8) auto
    from rt ts have "run_each C ts (w7, t7) = (Inr (tests_results b), (w8, t8))"
      by (simp add: s run_tests_def bnd_def lift_def)
    then have len: "length (tests_results b) = length ts"
      by (rule run_each_success[THEN conjunct2])
    from ts a b u2 rt len hd show ?thesis by blast
  qed
  from 1 2 show ?thesis by blast
qed

theorem run_hides_after_tests_witness:
  "run (reference [''Authorization'']) login (empty_world, []) =
     (Inr \<lparr>response = 0,
           tests_results = [\<lparr>test_name = ''auth'', status = PASSED, failure = None\<rparr>],
           no_failure = True\<rparr>,
      \<lparr>registry = [(''token'', VStr ''secret123''), (''response'', VObj 0)],
        ancestors = [],
        objects = [\<lparr>status_code = 200,
                    resp_headers = [(''Accept'', VStr ''json''),
                                    (''Authorization'', VStr ''SENSITIVE_INFORMATION'')],
                    resp_body = VNone\<rparr>]\<rparr>,
      snd (snd (run (reference [''Authorization'']) login (empty_world, [])))) \<and>
   filter (\<lambda>e. is_TestRun e \<or> is_Hide e)
     (snd (snd (run (reference [''Authorization'']) login (empty_world, [])))) =
     [TestRun (VDict [(''name'', VStr ''auth''), (''header'', VStr ''Authorization''),
                      (''equals'', VStr ''secret123'')]),
      Hide 0] \<and>
   filter is_Hide
     (butlast (snd (snd (run (reference [''Authorization'']) login (empty_world, []))))) = []"
  using run_hides_after_tests[OF login_run] by (simp add: login_run)

section \<open>The order of resolution and pre-call update\<close>

lemma login_run_as_specified:
  "run_as_specified (reference [''Authorization'']) login (empty_world, []) =
     (Inl (TemplateResolutionError ''token''),
      (empty_world,
       [Evaluate (VStr ''http://api/users''),
        Evaluate (VDict [(''Accept'', VStr ''json''), (''Authorization'', VStr ''${token}'')])]))"
  by code_simp

text \<open>
  C2, as the spec states it, fails on the code. The login request binds \<open>token\<close> in its
  own \<open>vars\<close> and uses it in a header. Resolving the headers before the pre-call update,
  as the contract is written, raises for the undefined name; \<open>run\<close> resolves them after
  the pre-call update and sends the value bound by it.
\<close>

theorem run_resolution_order_counterexample:
  "run_as_specified (reference [''Authorization'']) login (empty_world, []) =
     (Inl (TemplateResolutionError ''token''),
      (empty_world,
       [Evaluate (VStr ''http://api/users''),
        Evaluate (VDict [(''Accept'', VStr ''json''), (''Authorization'', VStr ''${token}'')])])) \<and>
   fst (run (reference [''Authorization'']) login (empty_world, [])) =
     Inr \<lparr>response = 0,
          tests_results = [\<lparr>test_name = ''auth'', status = PASSED, failure = None\<rparr>],
          no_failure = True\<rparr> \<and>
   take 6 (snd (snd (run (reference [''Authorization'']) login (empty_world, [])))) =
     [Evaluate (VStr ''http://api/users''),
      Update (VDict [(''token'', VStr ''secret123'')]) None False,
      Evaluate (VDict [(''Accept'', VStr ''json''), (''Authorization'', VStr ''${token}'')]),
      Evaluate (VDict []),
      Evaluate VNone,
      Request \<lparr>req_method = ''GET'', req_url = VStr ''http://api/users'',
               req_headers = VDict [(''Accept'', VStr ''json''),
                                    (''Authorization'', VStr ''secret123'')],
               req_params = VDict [], req_json = VNone, allow_redirects = False\<rparr>]"
  by (simp add: login_run login_run_as_specified)

text \<open>
  C2, amended. The method is resolved first: when \<open>http_method\<close> raises, \<open>run\<close> raises
  the same error without any collaborator call and leaves the state as it was, so any
  execution that makes a collaborator call has resolved its method, and a transport call
  carries it. In every execution of \<open>run\<close> the collaborator calls up to the transport
  call come in this order: evaluation of the joined URL, pre-call update, evaluation of
  the merged headers, of the merged params and of the body, transport call. When \<open>run\<close>
  returns, the method and the URL were resolved in the initial state, before the pre-call
  update; the headers, the params and the body were resolved after it, starting in the
  state it left; and the transport call received these values.
\<close>

theorem run_resolution_order:
  assumes "run C self (w, []) = (res, (w', tr))"
  shows "(\<exists>hs ps rq rest.
            prefix tr
              ([Evaluate (joined_url C self),
                Update (configured_vars self) None False,
                Evaluate (VDict (dict_merge (endpoint_headers (endpoint self)) hs)),
                Evaluate (VDict (dict_merge (endpoint_params (endpoint self)) ps)),
                Evaluate (dict_get (spec self) BODY_KEY VNone),
                Request rq] @ rest) \<and>
            (tr = [] \<or> http_method self = Inr (req_method rq))) \<and>
         (\<forall>e. http_method self = Inl e \<longrightarrow> res = Inl e \<and> w' = w \<and> tr = []) \<and>
         (\<forall>b. res = Inr b \<longrightarrow>
            (\<exists>m U H P B hs ps s1 s2 s3 s4 s5 s6 rest.
               http_method self = Inr m \<and>
               dict_get (spec self) HEADERS_KEY (VDict []) = VDict hs \<and>
               dict_get (spec self) PARAMS_KEY (VDict []) = VDict ps \<and>
               full_url_path C self (w, []) = (Inr U, s1) \<and>
               update C (configured_vars self) None False s1 = (Inr (), s2) \<and>
               headers C self s2 = (Inr H, s3) \<and>
               params C self s3 = (Inr P, s4) \<and>
               body C self s4 = (Inr B, s5) \<and>
               request C \<lparr>req_method = m, req_url = U, req_headers = H, req_params = P,
                   req_json = B, allow_redirects = False\<rparr> s5 = (Inr (response b), s6) \<and>
               tr = [Evaluate (joined_url C self),
                     Update (configured_vars self) None False,
                     Evaluate (VDict (dict_merge (endpoint_headers (endpoint self)) hs)),
                     Evaluate (VDict (dict_merge (endpoint_params (endpoint self)) ps)),
                     Evaluate (dict_get (spec self) BODY_KEY VNone),
                     Request \<lparr>req_method = m, req_url = U, req_headers = H, req_params = P,
                       req_json = B, allow_redirects = False\<rparr>] @ rest))"
proof -
  from run_trace_prefix[OF assms] obtain hs ps m U H P B r ts where
    p: "prefix tr
       ([Evaluate (joined_url C self),
         Update (configured_vars self) None False,
         Evaluate (VDict (dict_merge (endpoint_headers (endpoint self)) hs)),
         Evaluate (VDict (dict_merge (endpoint_params (endpoint self)) ps)),
         Evaluate (dict_get (spec self) BODY_KEY VNone),
         Request \<lparr>req_method = m, req_url = U, req_headers = H, req_params = P,
           req_json = B, allow_redirects = False\<rparr>,
         Update (configured_vars self) (response_extras r) True]
        @ map TestRun ts @ [Hide r])" and
    mm: "tr = [] \<or> http_method self = Inr m"
    by blast
  have mq: "tr = [] \<or> http_method self =
      Inr (req_method \<lparr>req_method = m, req_url = U, req_headers = H, req_params = P,
           req_json = B, allow_redirects = False\<rparr>)"
    using mm by simp
  have "prefix tr
       ([Evaluate (joined_url C self),
         Update (configured_vars self) None False,
         Evaluate (VDict (dict_merge (endpoint_headers (endpoint self)) hs)),
         Evaluate (VDict (dict_merge (endpoint_params (endpoint self)) ps)),
         Evaluate (dict_get (spec self) BODY_KEY VNone),
         Request \<lparr>req_method = m, req_url = U, req_headers = H, req_params = P,
           req_json = B, allow_redirects = False\<rparr>] @
        (Update (configured_vars self) (response_extras r) True # map TestRun ts @ [Hide r]))"
    using p by simp
  with mq have 1: "\<exists>hs ps rq rest.
            prefix tr
              ([Evaluate (joined_url C self),
                Update (configured_vars self) None False,
                Evaluate (VDict (dict_merge (endpoint_headers (endpoint self)) hs)),
                Evaluate (VDict (dict_merge (endpoint_params (endpoint self)) ps)),
                Evaluate (dict_get (spec self) BODY_KEY VNone),
                Request rq] @ rest) \<and>
            (tr = [] \<or> http_method self = Inr (req_method rq))"
    by blast
  have 3: "res = Inl e \<and> w' = w \<and> tr = []" if "http_method self = Inl e" for e
    using assms that by (auto simp: run_def bnd_def lift_def)
  have 2: "\<exists>m U H P B hs ps s1 s2 s3 s4 s5 s6 rest.
               http_method self = Inr m \<and>
               dict_get (spec self) HEADERS_KEY (VDict []) = VDict hs \<and>
               dict_get (spec self) PARAMS_KEY (VDict []) = VDict ps \<and>
               full_url_path C self (w, []) = (Inr U, s1) \<and>
               update C (configured_vars self) None False s1 = (Inr (), s2) \<and>
               headers C self s2 = (Inr H, s3) \<and>
               params C self s3 = (Inr P, s4) \<and>
               body C self s4 = (Inr B, s5) \<and>
               request C \<lparr>req_method = m, req_url = U, req_headers = H, req_params = P,
                   req_json = B, allow_redirects = False\<rparr> s5 = (Inr (response b), s6) \<and>
               tr = [Evaluate (joined_url C self),
                     Update (configured_vars self) None False,
                     Evaluate (VDict (dict_merge (endpoint_headers (endpoint self)) hs)),
                     Evaluate (VDict (dict_merge (endpoint_params (endpoint self)) ps)),
                     Evaluate (dict_get (spec self) BODY_KEY VNone),
                     Request \<lparr>req_method = m, req_url = U, req_headers = H, req_params = P,
                       req_json = B, allow_redirects = False\<rparr>] @ rest"
    if "res = Inr b" for b
  proof -
    from run_success_chain[OF assms[unfolded that]]
    obtain m U H P B ts hs ps s1 s2 s3 s4 s5 s6 where
      c: "http_method self = Inr m"
         "dict_get (spec self) HEADERS_KEY (VDict []) = VDict hs"
         "dict_get (spec self) PARAMS_KEY (VDict []) = VDict ps"
         "full_url_path C self (w, []) = (Inr U, s1)"
         "update C (configured_vars self) None False s1 = (Inr (), s2)"
         "headers C self s2 = (Inr H, s3)"
         "params C self s3 = (Inr P, s4)"
         "body C self s4 = (Inr B, s5)"
         "request C \<lparr>req_method = m, req_url = U, req_headers = H, req_params = P,
            req_json = B, allow_redirects = False\<rparr> s5 = (Inr (response b), s6)" and
      tr: "tr = [Evaluate (joined_url C self),
          Update (configured_vars self) None False,
          Evaluate (VDict (dict_merge (endpoint_headers (endpoint self)) hs)),
          Evaluate (VDict (dict_merge (endpoint_params (endpoint self)) ps)),
          Evaluate (dict_get (spec self) BODY_KEY VNone),
          Request \<lparr>req_method = m, req_url = U, req_headers = H, req_params = P,
            req_json = B, allow_redirects = False\<rparr>,
          Update (configured_vars self) (response_extras (response b)) True]
         @ map TestRun ts @ [Hide (response b)]"
      by blast
    have "tr = [Evaluate (joined_url C self),
                     Update (configured_vars self) None False,
                     Evaluate (VDict (dict_merge (endpoint_headers (endpoint self)) hs)),
                     Evaluate (VDict (dict_merge (endpoint_params (endpoint self)) ps)),
                     Evaluate (dict_get (spec self) BODY_KEY VNone),
                     Request \<lparr>req_method = m, req_url = U, req_headers = H, req_params = P,
                       req_json = B, allow_redirects = False\<rparr>] @
          (Update (configured_vars self) (response_extras (response b)) True
             # map TestRun ts @ [Hide (response b)])"
      by (simp add: tr)
    with c show ?thesis by blast
  qed
  from 1 2 3 show ?thesis by blast
qed

lemma options_run:
  "run (reference [''Authorization''])
     \<lparr>spec = [(''name'', VStr ''r''), (''method'', VStr ''options'')],
      endpoint = login_endpoint\<rparr> (empty_world, []) =
     (Inl (HTTPMethodNotAllowedError ''OPTIONS'' [''GET'', ''POST'', ''PUT'', ''PATCH'', ''DELETE'']),
      (empty_world, []))"
  by code_simp

theorem run_resolution_order_witness:
  "fst (run (reference [''Authorization'']) login (empty_world, [])) =
     Inr \<lparr>response = 0,
          tests_results = [\<lparr>test_name = ''auth'', status = PASSED, failure = None\<rparr>],
          no_failure = True\<rparr> \<and>
   (\<exists>rest. snd (snd (run (reference [''Authorization'']) login (empty_world, []))) =
     [Evaluate (VStr ''http://api/users''),
      Update (VDict [(''token'', VStr ''secret123'')]) None False,
      Evaluate (VDict [(''Accept'', VStr ''json''), (''Authorization'', VStr ''${token}'')]),
      Evaluate (VDict []),
      Evaluate VNone,
      Request \<lparr>req_method = ''GET'', req_url = VStr ''http://api/users'',
               req_headers = VDict [(''Accept'', VStr ''json''),
                                    (''Authorization'', VStr ''secret123'')],
               req_params = VDict [], req_json = VNone, allow_redirects = False\<rparr>] @ rest) \<and>
   http_method login = Inr ''GET'' \<and>
   http_method \<lparr>spec = [(''name'', VStr ''r''), (''method'', VStr ''options'')],
                endpoint = login_endpoint\<rparr> =
     Inl (HTTPMethodNotAllowedError ''OPTIONS'' [''GET'', ''POST'', ''PUT'', ''PATCH'', ''DELETE'']) \<and>
   run (reference [''Authorization''])
     \<lparr>spec = [(''name'', VStr ''r''), (''method'', VStr ''options'')],
      endpoint = login_endpoint\<rparr> (empty_world, []) =
     (Inl (HTTPMethodNotAllowedError ''OPTIONS'' [''GET'', ''POST'', ''PUT'', ''PATCH'', ''DELETE'']),
      (empty_world, []))"
proof -
  have g: "http_method login = Inr ''GET''"
    by code_simp
  have o: "http_method \<lparr>spec = [(''name'', VStr ''r''), (''method'', VStr ''options'')],
                endpoint = login_endpoint\<rparr> =
     Inl (HTTPMethodNotAllowedError ''OPTIONS'' [''GET'', ''POST'', ''PUT'', ''PATCH'', ''DELETE''])"
    by code_simp
  show ?thesis
    using run_resolution_order[OF login_run] run_resolution_order[OF options_run] g o
    by (simp add: login_run options_run)
qed

end
